theory Spec2Isabelle
  imports Main "HOL-Library.Word"
begin

section \<open>Token utilities (src/utils/auth-utils.ts)\<close>

text \<open>
  Errors are values. The constructors are the exception classes the services throw
  (with their message), the errors of the Prisma client that reach a caller unwrapped
  (code and \<open>meta.target\<close>), and the \<open>RangeError\<close> of Node's \<open>crypto\<close> module.
\<close>

datatype prisma_code = P2002 | P2003 | P2025

datatype jsval =
    JNull
  | JStr string
  | JBool bool
  | JNum int
  | JDate int
  | JObj "(string \<times> jsval) list"

type_synonym jsobj = "(string \<times> jsval) list"

datatype error =
    NotFoundException string
  | UnauthorizedException string
  | ForbiddenException jsobj
  | ConflictException string
  | InternalServerErrorException string
  | PrismaClientKnownRequestError prisma_code "string list"
  | RangeError string

text \<open>
  \<open>Buffer.from(s, 'hex')\<close>: Node decodes two characters at a time and stops at the first
  pair that is not two hexadecimal digits, or when fewer than two characters are left.
\<close>

definition unhex :: "char \<Rightarrow> 8 word option" where
  "unhex c =
     (let n = of_char c :: nat in
      if 48 \<le> n \<and> n \<le> 57 then Some (of_nat (n - 48))
      else if 97 \<le> n \<and> n \<le> 102 then Some (of_nat (n - 87))
      else if 65 \<le> n \<and> n \<le> 70 then Some (of_nat (n - 55))
      else None)"

fun Buffer_from_hex :: "string \<Rightarrow> 8 word list" where
  "Buffer_from_hex (a # b # rest) =
     (case unhex a of
        None \<Rightarrow> []
      | Some x \<Rightarrow>
          (case unhex b of
             None \<Rightarrow> []
           | Some y \<Rightarrow> (16 * x + y) # Buffer_from_hex rest))"
| "Buffer_from_hex _ = []"

text \<open>
  \<open>crypto.timingSafeEqual(a, b)\<close>: throws a \<open>RangeError\<close> when the two buffers differ in
  byte length, and otherwise returns whether they hold the same bytes.
\<close>

definition timingSafeEqual :: "8 word list \<Rightarrow> 8 word list \<Rightarrow> error + bool" where
  "timingSafeEqual a b =
     (if length a \<noteq> length b
      then Inl (RangeError ''Input buffers must have the same byte length'')
      else Inr (a = b))"

definition verifyActivationToken :: "string \<Rightarrow> string \<Rightarrow> error + bool" where
  "verifyActivationToken storedToken providedToken =
     timingSafeEqual (Buffer_from_hex storedToken) (Buffer_from_hex providedToken)"

text \<open>\<open>crypto.randomBytes(32).toString('hex')\<close>, the 32 random bytes being an input.\<close>

definition hex_digit :: "nat \<Rightarrow> char" where
  "hex_digit n = (if n < 10 then char_of (48 + n) else char_of (87 + n))"

definition toString_hex :: "8 word list \<Rightarrow> string" where
  "toString_hex bs = concat (map (\<lambda>b. [hex_digit (unat b div 16), hex_digit (unat b mod 16)]) bs)"


definition generateResetPasswordToken :: "8 word list \<Rightarrow> string" where
  "generateResetPasswordToken randomBytes = toString_hex randomBytes"

section \<open>The credential store (prisma/schema.prisma)\<close>

text \<open>
  A \<open>DateTime\<close> is a JavaScript \<open>Date\<close>: milliseconds since the epoch. A nullable
  column is an \<open>option\<close>, \<open>None\<close> being \<open>null\<close>. The columns \<open>id\<close> and \<open>name\<close> of
  \<open>Role\<close> carry a suffix, as does \<open>id\<close> of \<open>User\<close>.
\<close>

type_synonym date = int

record role =
  id_role :: string
  name_role :: string
  description_role :: "string option"
  createdAt_role :: date
  updatedAt_role :: date

record user =
  id_user :: string
  email :: string
  password :: string
  name :: string
  lastName :: string
  address :: "string option"
  phone :: "string option"
  isActive :: bool
  activationToken :: "string option"
  activationTokenExpires :: "date option"
  resetToken :: "string option"
  resetTokenExpiry :: "date option"
  refreshToken :: "string option"
  refreshTokenExpires :: "date option"
  roleId :: string
  createdAt :: date
  updatedAt :: date

text \<open>The two mail templates, applied to the link they embed.\<close>

datatype mail_body =
    activationUserEmailTemplate string
  | resetPasswordEmailTemplate string

text \<open>
  The state the services act on: the two tables and the calls made to
  \<open>MailService.sendEmail\<close> (recipient, subject, body), in order.
\<close>

record db =
  users :: "user list"
  roles :: "role list"
  outbox :: "(string \<times> string \<times> mail_body) list"

definition sendEmail :: "string \<Rightarrow> string \<Rightarrow> mail_body \<Rightarrow> db \<Rightarrow> db" where
  "sendEmail to subject body d = d\<lparr>outbox := outbox d @ [(to, subject, body)]\<rparr>"

text \<open>\<open>findUnique({ where })\<close>: the row that satisfies the condition, if there is one.\<close>

definition findUnique :: "(user \<Rightarrow> bool) \<Rightarrow> db \<Rightarrow> user option" where
  "findUnique cond d = find cond (users d)"

text \<open>The filter \<open>{ gt: v }\<close> on a nullable column: \<open>null\<close> never matches.\<close>

definition gt :: "date option \<Rightarrow> date \<Rightarrow> bool" where
  "gt column v = (case column of None \<Rightarrow> False | Some x \<Rightarrow> v < x)"

text \<open>
  The \<open>data\<close> of an \<open>update\<close>: for each column the services write, \<open>None\<close> when the
  object does not name it and \<open>Some v\<close> when it sets it to \<open>v\<close> (\<open>Some None\<close> sets
  \<open>null\<close>).
\<close>

record user_data =
  data_password :: "string option"
  data_isActive :: "bool option"
  data_activationToken :: "string option option"
  data_activationTokenExpires :: "date option option"
  data_resetToken :: "string option option"
  data_resetTokenExpiry :: "date option option"
  data_refreshToken :: "string option option"
  data_refreshTokenExpires :: "date option option"

definition no_data :: user_data where
  "no_data =
     \<lparr>data_password = None, data_isActive = None,
      data_activationToken = None, data_activationTokenExpires = None,
      data_resetToken = None, data_resetTokenExpiry = None,
      data_refreshToken = None, data_refreshTokenExpires = None\<rparr>"

definition written :: "'a option \<Rightarrow> 'a \<Rightarrow> 'a" where
  "written new old = (case new of None \<Rightarrow> old | Some v \<Rightarrow> v)"

text \<open>The row after an update at \<open>now\<close>; \<open>@updatedAt\<close> stamps it.\<close>

definition write_data :: "user_data \<Rightarrow> date \<Rightarrow> user \<Rightarrow> user" where
  "write_data dt now u =
     u\<lparr>password := written (data_password dt) (password u),
       isActive := written (data_isActive dt) (isActive u),
       activationToken := written (data_activationToken dt) (activationToken u),
       activationTokenExpires := written (data_activationTokenExpires dt) (activationTokenExpires u),
       resetToken := written (data_resetToken dt) (resetToken u),
       resetTokenExpiry := written (data_resetTokenExpiry dt) (resetTokenExpiry u),
       refreshToken := written (data_refreshToken dt) (refreshToken u),
       refreshTokenExpires := written (data_refreshTokenExpires dt) (refreshTokenExpires u),
       updatedAt := now\<rparr>"

text \<open>
  The \<open>@unique\<close> token columns: a written, non-null token that another row holds
  violates the index. The result is the \<open>meta.target\<close> of the error, empty when no index
  is violated.
\<close>

definition taken :: "(user \<Rightarrow> string option) \<Rightarrow> string option option \<Rightarrow> user list \<Rightarrow> bool" where
  "taken column new others =
     (case new of
        Some (Some t) \<Rightarrow> list_ex (\<lambda>x. column x = Some t) others
      | _ \<Rightarrow> False)"

definition unique_violation :: "user_data \<Rightarrow> user list \<Rightarrow> string list" where
  "unique_violation dt others =
     (if taken activationToken (data_activationToken dt) others then [''activationToken'']
      else if taken resetToken (data_resetToken dt) others then [''resetToken'']
      else if taken refreshToken (data_refreshToken dt) others then [''refreshToken'']
      else [])"

text \<open>
  \<open>user.update({ where: { id }, data })\<close>: \<open>P2025\<close> when no row has the id, \<open>P2002\<close> when
  a unique index is violated, and otherwise the updated row and the new state.
\<close>

definition user_update :: "string \<Rightarrow> user_data \<Rightarrow> date \<Rightarrow> db \<Rightarrow> error + (user \<times> db)" where
  "user_update i dt now d =
     (case find (\<lambda>u. id_user u = i) (users d) of
        None \<Rightarrow> Inl (PrismaClientKnownRequestError P2025 [])
      | Some u \<Rightarrow>
          (let target = unique_violation dt (filter (\<lambda>x. id_user x \<noteq> i) (users d)) in
           if target \<noteq> [] then Inl (PrismaClientKnownRequestError P2002 target)
           else Inr (write_data dt now u,
                     d\<lparr>users := map (\<lambda>x. if id_user x = i then write_data dt now x else x) (users d)\<rparr>)))"


definition error_code :: "error \<Rightarrow> prisma_code option" where
  "error_code e = (case e of PrismaClientKnownRequestError c _ \<Rightarrow> Some c | _ \<Rightarrow> None)"


subsection \<open>Rows as the objects handed to callers\<close>

definition opt_str :: "string option \<Rightarrow> jsval" where
  "opt_str v = (case v of None \<Rightarrow> JNull | Some s \<Rightarrow> JStr s)"

definition opt_date :: "date option \<Rightarrow> jsval" where
  "opt_date v = (case v of None \<Rightarrow> JNull | Some t \<Rightarrow> JDate t)"

definition user_obj :: "user \<Rightarrow> jsobj" where
  "user_obj u =
     [(''id'', JStr (id_user u)),
      (''email'', JStr (email u)),
      (''password'', JStr (password u)),
      (''name'', JStr (name u)),
      (''lastName'', JStr (lastName u)),
      (''address'', opt_str (address u)),
      (''phone'', opt_str (phone u)),
      (''isActive'', JBool (isActive u)),
      (''activationToken'', opt_str (activationToken u)),
      (''activationTokenExpires'', opt_date (activationTokenExpires u)),
      (''resetToken'', opt_str (resetToken u)),
      (''resetTokenExpiry'', opt_date (resetTokenExpiry u)),
      (''refreshToken'', opt_str (refreshToken u)),
      (''refreshTokenExpires'', opt_date (refreshTokenExpires u)),
      (''roleId'', JStr (roleId u)),
      (''createdAt'', JDate (createdAt u)),
      (''updatedAt'', JDate (updatedAt u))]"

definition role_obj :: "role \<Rightarrow> jsobj" where
  "role_obj r =
     [(''id'', JStr (id_role r)),
      (''name'', JStr (name_role r)),
      (''description'', opt_str (description_role r)),
      (''createdAt'', JDate (createdAt_role r)),
      (''updatedAt'', JDate (updatedAt_role r))]"

text \<open>\<open>const { password, ...result } = user\<close> is \<open>omit ''password''\<close> of the object.\<close>

definition omit :: "string \<Rightarrow> jsobj \<Rightarrow> jsobj" where
  "omit k obj = filter (\<lambda>kv. fst kv \<noteq> k) obj"

definition str_field :: "string \<Rightarrow> jsobj \<Rightarrow> string" where
  "str_field k obj = (case map_of obj k of Some (JStr s) \<Rightarrow> s | _ \<Rightarrow> [])"

text \<open>\<open>include: { role: true }\<close> adds the related row under the key \<open>role\<close>.\<close>

definition include_role :: "db \<Rightarrow> user \<Rightarrow> jsobj" where
  "include_role d u =
     user_obj u @
     [(''role'', (case find (\<lambda>r. id_role r = roleId u) (roles d) of
                   None \<Rightarrow> JNull
                 | Some r \<Rightarrow> JObj (role_obj r)))]"

section \<open>What the services take from outside\<close>

text \<open>
  The bcrypt and JWT primitives and the configuration are parameters: \<open>bcrypt.hash\<close>
  (password, salt rounds), \<open>bcrypt.compare\<close> (password, hash), the \<open>sign\<close> of the two
  \<open>JwtService\<close> instances (the payload's email and subject, and the instant of signing),
  the refresh instance's \<open>verify\<close> (true when it returns, false when it throws) and the
  configured \<open>FRONTEND_URL\<close>. A call happens at one instant \<open>now\<close>, which every clock
  read of the call returns.
\<close>

record env =
  bcrypt_hash :: "string \<Rightarrow> nat \<Rightarrow> string"
  bcrypt_compare :: "string \<Rightarrow> string \<Rightarrow> bool"
  jwtService_sign :: "string \<Rightarrow> string \<Rightarrow> date \<Rightarrow> string"
  refreshJwtService_sign :: "string \<Rightarrow> string \<Rightarrow> date \<Rightarrow> string"
  refreshJwtService_verify :: "string \<Rightarrow> date \<Rightarrow> bool"
  FRONTEND_URL :: string

record UserPayload =
  payload_id :: string
  payload_email :: string

record LoginResponse =
  access_token :: string
  refresh_token :: string

section \<open>AuthService (src/auth/auth.service.ts)\<close>

text \<open>
  An operation that writes returns its outcome and the state it leaves; an exception
  thrown after a write keeps the write. \<open>validateUser\<close> and \<open>getProfile\<close> only read.
\<close>

definition validateUser :: "env \<Rightarrow> db \<Rightarrow> string \<Rightarrow> string \<Rightarrow> error + jsobj option" where
  "validateUser env d email' pass =
     (case findUnique (\<lambda>u. email u = email') d of
        None \<Rightarrow> Inr None
      | Some user \<Rightarrow>
          if isActive user = False
          then Inl (ForbiddenException
                 [(''error'', JStr ''Account Inactive''),
                  (''message'', JStr ''Account is not active. Please check your email for activation instructions.''),
                  (''email'', JStr (email user)),
                  (''activationTokenExpires'', opt_date (activationTokenExpires user)),
                  (''resolution'', JStr ''Check your email or contact us for assistance.''),
                  (''statusCode'', JNum 403)])
          else if bcrypt_compare env pass (password user)
          then Inr (Some (omit ''password'' (user_obj user)))
          else Inr None)"

definition refresh_data :: "string option \<Rightarrow> date option \<Rightarrow> user_data" where
  "refresh_data token expires =
     no_data\<lparr>data_refreshToken := Some token, data_refreshTokenExpires := Some expires\<rparr>"


definition logout :: "date \<Rightarrow> db \<Rightarrow> string \<Rightarrow> (error + string) \<times> db" where
  "logout now d userId =
     (case user_update userId (refresh_data None None) now d of
        Inr (_, d') \<Rightarrow> (Inr ''Logout successful'', d')
      | Inl e \<Rightarrow>
          if error_code e = Some P2025 then (Inr ''Logout successful'', d)
          else (Inl (InternalServerErrorException ''Failed to process logout.''), d))"

text \<open>
  \<open>refreshToken\<close> awaits the store twice: the lookup of the presented token, and then,
  after the signature check, one update. The two parts are \<open>refreshToken_find\<close> and
  \<open>refreshToken_rotate\<close>; the operation is \<open>refreshToken_op\<close> (the column has the name).
\<close>

definition refreshToken_find :: "date \<Rightarrow> db \<Rightarrow> string \<Rightarrow> error + user" where
  "refreshToken_find now d token =
     (case findUnique (\<lambda>u. refreshToken u = Some token \<and> gt (refreshTokenExpires u) now) d of
        None \<Rightarrow> Inl (UnauthorizedException ''Invalid or expired refresh token'')
      | Some dbUser \<Rightarrow> Inr dbUser)"

definition refreshToken_rotate ::
  "env \<Rightarrow> date \<Rightarrow> db \<Rightarrow> string \<Rightarrow> user \<Rightarrow> (error + LoginResponse) \<times> db" where
  "refreshToken_rotate env now d token dbUser =
     (if \<not> refreshJwtService_verify env token now
      then (case user_update (id_user dbUser) (refresh_data None None) now d of
              Inl e \<Rightarrow> (Inl e, d)
            | Inr (_, d') \<Rightarrow> (Inl (UnauthorizedException ''Invalid refresh token''), d'))
      else
        (let newAccessToken = jwtService_sign env (email dbUser) (id_user dbUser) now;
             newRefreshToken = refreshJwtService_sign env (email dbUser) (id_user dbUser) now
         in case user_update (id_user dbUser)
                   (refresh_data (Some newRefreshToken) (Some (now + 7 * 24 * 60 * 60 * 1000))) now d of
              Inl e \<Rightarrow> (Inl e, d)
            | Inr (_, d') \<Rightarrow>
                (Inr \<lparr>access_token = newAccessToken, refresh_token = newRefreshToken\<rparr>, d')))"

definition refreshToken_op :: "env \<Rightarrow> date \<Rightarrow> db \<Rightarrow> string \<Rightarrow> (error + LoginResponse) \<times> db" where
  "refreshToken_op env now d token =
     (case refreshToken_find now d token of
        Inl e \<Rightarrow> (Inl e, d)
      | Inr dbUser \<Rightarrow> refreshToken_rotate env now d token dbUser)"

definition getProfile :: "db \<Rightarrow> UserPayload \<Rightarrow> error + jsobj" where
  "getProfile d user =
     (case findUnique (\<lambda>u. email u = payload_email user) d of
        None \<Rightarrow> Inl (NotFoundException (''User con ID '' @ payload_id user @ '' no encontrado''))
      | Some userFound \<Rightarrow> Inr (include_role d userFound))"

section \<open>UsersService (users.service.ts, kept in src/users/dto/update-user.dto.ts)\<close>


definition hashPassword :: "env \<Rightarrow> string \<Rightarrow> string" where
  "hashPassword env password' = bcrypt_hash env password' 10"

definition activation_data :: "string option \<Rightarrow> date option \<Rightarrow> user_data" where
  "activation_data token expires =
     no_data\<lparr>data_activationToken := Some token, data_activationTokenExpires := Some expires\<rparr>"

definition reset_data :: "string option \<Rightarrow> date option \<Rightarrow> user_data" where
  "reset_data token expiry =
     no_data\<lparr>data_resetToken := Some token, data_resetTokenExpiry := Some expiry\<rparr>"


definition findUserByEmail :: "db \<Rightarrow> string \<Rightarrow> user option" where
  "findUserByEmail d email' = findUnique (\<lambda>u. email u = email') d"

definition findByActivationToken :: "db \<Rightarrow> string \<Rightarrow> user option" where
  "findByActivationToken d token =
     (if token = [] then None else findUnique (\<lambda>u. activationToken u = Some token) d)"

text \<open>
  The expiry test of both token checks, \<open>!expires || expires < new Date()\<close>: true when
  the column is \<open>null\<close> or lies before \<open>now\<close>.
\<close>

definition expired :: "date option \<Rightarrow> date \<Rightarrow> bool" where
  "expired expires now = (case expires of None \<Rightarrow> True | Some t \<Rightarrow> t < now)"

definition findByResetToken :: "date \<Rightarrow> db \<Rightarrow> string \<Rightarrow> error + jsobj" where
  "findByResetToken now d resetToken' =
     (if resetToken' = [] then Inl (NotFoundException ''Reset token is required.'')
      else case findUnique (\<lambda>u. resetToken u = Some resetToken') d of
             None \<Rightarrow> Inl (NotFoundException ''Invalid reset token.'')
           | Some user \<Rightarrow>
               if expired (resetTokenExpiry user) now
               then Inl (NotFoundException ''Reset token has expired.'')
               else Inr (omit ''password'' (user_obj user)))"

text \<open>
  \<open>activateUser\<close> awaits the store twice: the lookup by token with the expiry check on
  the row read (\<open>activateUser_find\<close>), then the update of the row with that id
  (\<open>activateUser_update\<close>).
\<close>

definition activateUser_find :: "date \<Rightarrow> db \<Rightarrow> string \<Rightarrow> error + user" where
  "activateUser_find now d token =
     (case findByActivationToken d token of
        None \<Rightarrow> Inl (UnauthorizedException ''Invalid activation token.'')
      | Some user \<Rightarrow>
          if expired (activationTokenExpires user) now
          then Inl (UnauthorizedException ''Activation token has expired.'')
          else Inr user)"

definition activateUser_update :: "date \<Rightarrow> db \<Rightarrow> user \<Rightarrow> (error + jsobj) \<times> db" where
  "activateUser_update now d user =
     (case user_update (id_user user)
             ((activation_data None None)\<lparr>data_isActive := Some True\<rparr>) now d of
        Inl e \<Rightarrow> (Inl e, d)
      | Inr (updatedUser, d') \<Rightarrow> (Inr (omit ''password'' (user_obj updatedUser)), d'))"

definition activateUser :: "date \<Rightarrow> db \<Rightarrow> string \<Rightarrow> (error + jsobj) \<times> db" where
  "activateUser now d token =
     (case activateUser_find now d token of
        Inl e \<Rightarrow> (Inl e, d)
      | Inr user \<Rightarrow> activateUser_update now d user)"

definition resetPassword ::
  "env \<Rightarrow> 8 word list \<Rightarrow> date \<Rightarrow> db \<Rightarrow> string \<Rightarrow> (error + jsobj) \<times> db" where
  "resetPassword env randomBytes now d email' =
     (case findUserByEmail d email' of
        None \<Rightarrow> (Inl (NotFoundException ''User not found''), d)
      | Some user \<Rightarrow>
          (let resetToken' = generateResetPasswordToken randomBytes;
               resetTokenExpiry' = now + 1 * 60 * 60 * 1000
           in case user_update (id_user user)
                     (reset_data (Some resetToken') (Some resetTokenExpiry')) now d of
                Inl e \<Rightarrow> (Inl (InternalServerErrorException ''Failed to process password reset''), d)
              | Inr (userUpdated, d') \<Rightarrow>
                  (Inr (omit ''password'' (user_obj userUpdated)),
                   sendEmail (email user) ''Reset Your Password''
                     (resetPasswordEmailTemplate
                        (FRONTEND_URL env @ ''/auth/update-password/?token='' @ resetToken')) d')))"

text \<open>
  \<open>updatePassword\<close> awaits \<open>findByResetToken\<close>, then hashes and updates the row with the
  id of the object it got (\<open>updatePassword_update\<close>).
\<close>

definition updatePassword_update ::
  "env \<Rightarrow> date \<Rightarrow> db \<Rightarrow> jsobj \<Rightarrow> string \<Rightarrow> (error + jsobj) \<times> db" where
  "updatePassword_update env now d user newPassword =
     (let hashedPassword = hashPassword env newPassword
      in case user_update (str_field ''id'' user)
                ((reset_data None None)\<lparr>data_password := Some hashedPassword\<rparr>) now d of
           Inl e \<Rightarrow> (Inl (InternalServerErrorException ''Could not update password.''), d)
         | Inr (userUpdated, d') \<Rightarrow> (Inr (omit ''password'' (user_obj userUpdated)), d'))"

definition updatePassword ::
  "env \<Rightarrow> date \<Rightarrow> db \<Rightarrow> string \<Rightarrow> string \<Rightarrow> (error + jsobj) \<times> db" where
  "updatePassword env now d resetToken' newPassword =
     (case findByResetToken now d resetToken' of
        Inl e \<Rightarrow> (Inl e, d)
      | Inr user \<Rightarrow> updatePassword_update env now d user newPassword)"



section \<open>Invariants of the store, and two requests at once\<close>

text \<open>
  A token column and its expiry column are paired when both are \<open>null\<close> or neither is.
  \<open>data_pairs\<close> says the same of the \<open>data\<close> of an update: it names a token column
  and its expiry together or not at all, and sets both to \<open>null\<close> or neither.
\<close>

definition paired :: "'a option \<Rightarrow> 'b option \<Rightarrow> bool" where
  "paired token expires = ((token = None) = (expires = None))"

definition token_pairs :: "user \<Rightarrow> bool" where
  "token_pairs u =
     (paired (activationToken u) (activationTokenExpires u) \<and>
      paired (resetToken u) (resetTokenExpiry u) \<and>
      paired (refreshToken u) (refreshTokenExpires u))"

definition db_token_pairs :: "db \<Rightarrow> bool" where
  "db_token_pairs d = list_all token_pairs (users d)"

definition pair_written :: "'a option option \<Rightarrow> 'b option option \<Rightarrow> bool" where
  "pair_written token expires =
     (case token of
        None \<Rightarrow> expires = None
      | Some t \<Rightarrow> (case expires of None \<Rightarrow> False | Some e \<Rightarrow> paired t e))"

definition data_pairs :: "user_data \<Rightarrow> bool" where
  "data_pairs dt =
     (pair_written (data_activationToken dt) (data_activationTokenExpires dt) \<and>
      pair_written (data_resetToken dt) (data_resetTokenExpiry dt) \<and>
      pair_written (data_refreshToken dt) (data_refreshTokenExpires dt))"

text \<open>
  The \<open>@unique\<close> index on a token column, as far as the services rely on it: rows that
  hold the same non-null token are rows of the same account.
\<close>

definition unique_column :: "(user \<Rightarrow> string option) \<Rightarrow> db \<Rightarrow> bool" where
  "unique_column column d =
     (\<forall>u\<in>set (users d). \<forall>v\<in>set (users d).
        column u \<noteq> None \<and> column u = column v \<longrightarrow> id_user u = id_user v)"

text \<open>
  Two requests A and B, each a lookup awaited and then a write awaited, scheduled so that
  both lookups read the store before either write: A's lookup, B's lookup, A's write,
  B's write. A request whose lookup fails writes nothing.
\<close>

definition interleaved ::
  "(db \<Rightarrow> error + 'a) \<Rightarrow> (db \<Rightarrow> 'a \<Rightarrow> (error + 'r) \<times> db) \<Rightarrow>
   (db \<Rightarrow> error + 'a) \<Rightarrow> (db \<Rightarrow> 'a \<Rightarrow> (error + 'r) \<times> db) \<Rightarrow>
   db \<Rightarrow> ((error + 'r) \<times> (error + 'r)) \<times> db" where
  "interleaved lookupA writeA lookupB writeB d =
     (let foundA = lookupA d;
          foundB = lookupB d;
          (resultA, d1) = (case foundA of Inl e \<Rightarrow> (Inl e, d) | Inr x \<Rightarrow> writeA d x);
          (resultB, d2) = (case foundB of Inl e \<Rightarrow> (Inl e, d1) | Inr x \<Rightarrow> writeB d1 x)
      in ((resultA, resultB), d2))"

text \<open>
  Two activations with the same token and two password updates with the same reset
  token under that schedule, request A at instant \<open>a\<close> and request B at instant \<open>b\<close>.
\<close>

definition activateUser_interleaved ::
  "date \<Rightarrow> date \<Rightarrow> db \<Rightarrow> string \<Rightarrow> ((error + jsobj) \<times> (error + jsobj)) \<times> db" where
  "activateUser_interleaved a b d token =
     interleaved (\<lambda>s. activateUser_find a s token) (activateUser_update a)
                 (\<lambda>s. activateUser_find b s token) (activateUser_update b) d"

definition updatePassword_interleaved ::
  "env \<Rightarrow> date \<Rightarrow> date \<Rightarrow> db \<Rightarrow> string \<Rightarrow> string \<Rightarrow> string \<Rightarrow>
   ((error + jsobj) \<times> (error + jsobj)) \<times> db" where
  "updatePassword_interleaved env a b d resetToken' passwordA passwordB =
     interleaved (\<lambda>s. findByResetToken a s resetToken')
                 (\<lambda>s user. updatePassword_update env a s user passwordA)
                 (\<lambda>s. findByResetToken b s resetToken')
                 (\<lambda>s user. updatePassword_update env b s user passwordB) d"

section \<open>A sample environment and store\<close>

text \<open>
  Test doubles for the primitives, and a store of three accounts: \<open>alice\<close> is active,
  with a pending reset token and a stored refresh token that does not verify; \<open>bob\<close> is
  inactive with a pending activation token; \<open>carol\<close> is active with a refresh token that
  verifies. All three tokens expire at instant 100.
\<close>

definition env0 :: env where
  "env0 =
     \<lparr>bcrypt_hash = (\<lambda>p r. ''hash:'' @ p),
      bcrypt_compare = (\<lambda>p h. h = ''hash:'' @ p),
      jwtService_sign = (\<lambda>e s t. ''access.'' @ s @ ''.'' @ replicate (nat t) CHR ''i''),
      refreshJwtService_sign = (\<lambda>e s t. ''refresh.'' @ s @ ''.'' @ replicate (nat t) CHR ''i''),
      refreshJwtService_verify = (\<lambda>tok t. take 8 tok = ''refresh.''),
      FRONTEND_URL = ''http://localhost:3000''\<rparr>"

definition role0 :: role where
  "role0 =
     \<lparr>id_role = ''r1'', name_role = ''admin'', description_role = None,
      createdAt_role = 0, updatedAt_role = 0\<rparr>"

definition alice :: user where
  "alice =
     \<lparr>id_user = ''u1'', email = ''alice@example.com'', password = ''hash:secret'',
      name = ''Alice'', lastName = ''A'', address = None, phone = None, isActive = True,
      activationToken = None, activationTokenExpires = None,
      resetToken = Some ''ab12'', resetTokenExpiry = Some 100,
      refreshToken = Some ''forged'', refreshTokenExpires = Some 100,
      roleId = ''r1'', createdAt = 0, updatedAt = 0\<rparr>"

definition bob :: user where
  "bob =
     \<lparr>id_user = ''u2'', email = ''bob@example.com'', password = ''hash:hunter2'',
      name = ''Bob'', lastName = ''B'', address = None, phone = None, isActive = False,
      activationToken = Some ''cd34'', activationTokenExpires = Some 100,
      resetToken = None, resetTokenExpiry = None,
      refreshToken = None, refreshTokenExpires = None,
      roleId = ''r1'', createdAt = 0, updatedAt = 0\<rparr>"

definition carol :: user where
  "carol =
     \<lparr>id_user = ''u3'', email = ''carol@example.com'', password = ''hash:pass'',
      name = ''Carol'', lastName = ''C'', address = None, phone = None, isActive = True,
      activationToken = None, activationTokenExpires = None,
      resetToken = None, resetTokenExpiry = None,
      refreshToken = Some ''refresh.u3.'', refreshTokenExpires = Some 100,
      roleId = ''r1'', createdAt = 0, updatedAt = 0\<rparr>"

definition db0 :: db where
  "db0 = \<lparr>users = [alice, bob, carol], roles = [role0], outbox = []\<rparr>"

section \<open>Properties of the token comparison\<close>

lemma verifyActivationToken_length_mismatch:
  "length (Buffer_from_hex s) \<noteq> length (Buffer_from_hex p) \<Longrightarrow>
     verifyActivationToken s p = Inl (RangeError ''Input buffers must have the same byte length'')"
  by (simp add: verifyActivationToken_def timingSafeEqual_def)

lemma verifyActivationToken_same_length:
  "length (Buffer_from_hex s) = length (Buffer_from_hex p) \<Longrightarrow>
     verifyActivationToken s p = Inr (Buffer_from_hex s = Buffer_from_hex p)"
  by (simp add: verifyActivationToken_def timingSafeEqual_def)

text \<open>
  C4. The claim: inputs of different byte lengths compare as false without throwing.
  The code at the stored token \<open>abcd\<close> (two bytes) and the provided token \<open>ab\<close> (one
  byte): the comparison throws the \<open>RangeError\<close> of \<open>timingSafeEqual\<close>; no value is
  returned.
\<close>

theorem verifyActivationToken_throws_on_length:
  "verifyActivationToken ''abcd'' ''ab'' =
     Inl (RangeError ''Input buffers must have the same byte length'')"
  by (simp add: verifyActivationToken_def timingSafeEqual_def unhex_def)

section \<open>Facts about the store\<close>

lemmas fixture_defs = env0_def role0_def alice_def bob_def carol_def db0_def

lemma written_simps [simp]: "written None old = old" "written (Some v) old = v"
  by (simp_all add: written_def)

lemma write_refresh_data:
  "write_data (refresh_data tok ex) now u =
     u\<lparr>refreshToken := tok, refreshTokenExpires := ex, updatedAt := now\<rparr>"
  by (simp add: write_data_def refresh_data_def no_data_def)

lemma write_activation_data:
  "write_data ((activation_data tok ex)\<lparr>data_isActive := Some b\<rparr>) now u =
     u\<lparr>isActive := b, activationToken := tok, activationTokenExpires := ex, updatedAt := now\<rparr>"
  by (simp add: write_data_def activation_data_def no_data_def)

lemma write_reset_data:
  "write_data ((reset_data tok ex)\<lparr>data_password := Some p\<rparr>) now u =
     u\<lparr>password := p, resetToken := tok, resetTokenExpiry := ex, updatedAt := now\<rparr>"
  by (simp add: write_data_def reset_data_def no_data_def)

lemma taken_simps [simp]:
  "taken column None others = False"
  "taken column (Some None) others = False"
  "taken column (Some (Some t)) others = list_ex (\<lambda>x. column x = Some t) others"
  by (simp_all add: taken_def)

text \<open>Writing \<open>null\<close> into a token column violates no index.\<close>

lemma unique_violation_null [simp]:
  "unique_violation (refresh_data None ex) others = []"
  "unique_violation ((activation_data None ex')\<lparr>data_isActive := b\<rparr>) others = []"
  "unique_violation ((reset_data None ex'')\<lparr>data_password := p\<rparr>) others = []"
  by (simp_all add: unique_violation_def refresh_data_def activation_data_def reset_data_def no_data_def)

lemma find_id_of_member:
  "u \<in> set xs \<Longrightarrow> \<exists>v. find (\<lambda>x. id_user x = id_user u) xs = Some v"
  by (cases "find (\<lambda>x. id_user x = id_user u) xs") (auto simp: find_None_iff)

lemma findUnique_member:
  "findUnique cond d = Some u \<Longrightarrow> u \<in> set (users d) \<and> cond u"
  by (auto simp: findUnique_def find_Some_iff)

text \<open>An update that violates no index succeeds on every id the table holds.\<close>

lemma user_update_member:
  assumes "u \<in> set (users d)"
      and "unique_violation dt (filter (\<lambda>x. id_user x \<noteq> id_user u) (users d)) = []"
  shows "\<exists>v. user_update (id_user u) dt now d =
           Inr (v, d\<lparr>users := map (\<lambda>x. if id_user x = id_user u then write_data dt now x else x) (users d)\<rparr>)"
proof -
  obtain v where "find (\<lambda>x. id_user x = id_user u) (users d) = Some v"
    using find_id_of_member [OF assms(1)] by blast
  with assms(2) show ?thesis
    by (simp add: user_update_def)
qed

lemma map_id_absent:
  "find (\<lambda>x. id_user x = i) xs = None \<Longrightarrow> map (\<lambda>x. if id_user x = i then f x else x) xs = xs"
  by (induction xs) (auto split: if_splits)

section \<open>The sample store, column by column\<close>

lemma db0_users: "users db0 = [alice, bob, carol]"
  by (simp add: db0_def)

lemma alice_fields:
  "id_user alice = ''u1''" "email alice = ''alice@example.com''"
  "password alice = ''hash:secret''" "isActive alice = True"
  "activationToken alice = None" "activationTokenExpires alice = None"
  "resetToken alice = Some ''ab12''" "resetTokenExpiry alice = Some 100"
  "refreshToken alice = Some ''forged''" "refreshTokenExpires alice = Some 100"
  by (simp_all add: alice_def)

lemma bob_fields:
  "id_user bob = ''u2''" "email bob = ''bob@example.com''"
  "password bob = ''hash:hunter2''" "isActive bob = False"
  "activationToken bob = Some ''cd34''" "activationTokenExpires bob = Some 100"
  "resetToken bob = None" "resetTokenExpiry bob = None"
  "refreshToken bob = None" "refreshTokenExpires bob = None"
  by (simp_all add: bob_def)

lemma carol_fields:
  "id_user carol = ''u3''" "email carol = ''carol@example.com''"
  "password carol = ''hash:pass''" "isActive carol = True"
  "activationToken carol = None" "activationTokenExpires carol = None"
  "resetToken carol = None" "resetTokenExpiry carol = None"
  "refreshToken carol = Some ''refresh.u3.''" "refreshTokenExpires carol = Some 100"
  by (simp_all add: carol_def)

lemmas sample_fields = db0_users alice_fields bob_fields carol_fields

lemma env0_fields:
  "bcrypt_hash env0 p r = ''hash:'' @ p"
  "bcrypt_compare env0 p h = (h = ''hash:'' @ p)"
  "refreshJwtService_sign env0 e s t = ''refresh.'' @ s @ ''.'' @ replicate (nat t) CHR ''i''"
  "refreshJwtService_verify env0 tok t = (take 8 tok = ''refresh.'')"
  by (simp_all add: env0_def)

lemma findUnique_bob: "findUnique (\<lambda>u. email u = ''bob@example.com'') db0 = Some bob"
  by (simp add: findUnique_def sample_fields)

section \<open>The password-reset request\<close>

lemma resetPassword_miss:
  "findUserByEmail d email' = None \<Longrightarrow>
     resetPassword env randomBytes now d email' = (Inl (NotFoundException ''User not found''), d)"
  by (simp add: resetPassword_def)

text \<open>
  C2. The claim: a reset request for an email that no account has returns success,
  with no side effect. The code at the sample store and the email
  \<open>ghost@example.com\<close>, which no account has: the request throws
  \<open>NotFoundException('User not found')\<close>; the store and the outbox are unchanged.
\<close>

theorem resetPassword_unknown_email_throws:
  "resetPassword env0 [] 50 db0 ''ghost@example.com'' =
     (Inl (NotFoundException ''User not found''), db0)"
  by (simp add: resetPassword_def findUserByEmail_def findUnique_def fixture_defs)

section \<open>The profile\<close>

lemma getProfile_missing:
  "findUnique (\<lambda>u. email u = payload_email user) d = None \<Longrightarrow>
     getProfile d user =
       Inl (NotFoundException (''User con ID '' @ payload_id user @ '' no encontrado''))"
  by (simp add: getProfile_def)

text \<open>
  C3. The claim: the profile of an existing account has no password hash and no token
  field. The code at the sample store and the payload of \<open>alice\<close>: the object returned
  is the whole row with its role, and holds the password hash, the reset token and the
  refresh token under their keys.
\<close>

theorem getProfile_returns_password:
  "getProfile db0 \<lparr>payload_id = ''u1'', payload_email = ''alice@example.com''\<rparr> =
     Inr (include_role db0 alice) \<and>
   map_of (include_role db0 alice) ''password'' = Some (JStr ''hash:secret'') \<and>
   map_of (include_role db0 alice) ''resetToken'' = Some (JStr ''ab12'') \<and>
   map_of (include_role db0 alice) ''refreshToken'' = Some (JStr ''forged'')"
  by (simp add: getProfile_def findUnique_def include_role_def user_obj_def opt_str_def fixture_defs)

section \<open>Refresh with a token that does not verify\<close>

text \<open>
  C6. When the presented token is the stored refresh token of an account and its expiry
  lies after \<open>now\<close>, but the signature check fails, \<open>refreshToken\<close> fails with
  \<open>UnauthorizedException\<close> and leaves the store with both refresh columns of that
  account set to \<open>null\<close> (and nothing else changed but the row's \<open>updatedAt\<close>).
\<close>

theorem refreshToken_bad_signature:
  assumes found: "findUnique (\<lambda>u. refreshToken u = Some token \<and> gt (refreshTokenExpires u) now) d = Some dbUser"
      and bad: "\<not> refreshJwtService_verify env token now"
  shows "refreshToken_op env now d token =
           (Inl (UnauthorizedException ''Invalid refresh token''),
            d\<lparr>users := map (\<lambda>x. if id_user x = id_user dbUser
                                then x\<lparr>refreshToken := None, refreshTokenExpires := None, updatedAt := now\<rparr>
                                else x) (users d)\<rparr>)"
proof -
  from found have "dbUser \<in> set (users d)"
    by (simp add: findUnique_member)
  then obtain v where "user_update (id_user dbUser) (refresh_data None None) now d =
          Inr (v, d\<lparr>users := map (\<lambda>x. if id_user x = id_user dbUser
                                   then write_data (refresh_data None None) now x else x) (users d)\<rparr>)"
    using user_update_member [of dbUser d "refresh_data None None" now] by auto
  with found bad show ?thesis
    by (simp add: refreshToken_op_def refreshToken_find_def refreshToken_rotate_def write_refresh_data)
qed

theorem refreshToken_bad_signature_witness:
  "refreshToken_op env0 50 db0 ''forged'' =
     (Inl (UnauthorizedException ''Invalid refresh token''),
      db0\<lparr>users := [alice\<lparr>refreshToken := None, refreshTokenExpires := None, updatedAt := 50\<rparr>,
                     bob, carol]\<rparr>)"
proof -
  have f: "findUnique (\<lambda>u. refreshToken u = Some ''forged'' \<and> gt (refreshTokenExpires u) 50) db0 = Some alice"
    by (simp add: findUnique_def db0_def alice_def gt_def)
  have b: "\<not> refreshJwtService_verify env0 ''forged'' 50"
    by (simp add: env0_def)
  show ?thesis
    using refreshToken_bad_signature [OF f b]
    by (simp add: db0_def alice_def bob_def carol_def)
qed

section \<open>Logout\<close>

lemma logout_result:
  "logout now d userId =
     (Inr ''Logout successful'',
      d\<lparr>users := map (\<lambda>x. if id_user x = userId
                          then x\<lparr>refreshToken := None, refreshTokenExpires := None, updatedAt := now\<rparr>
                          else x) (users d)\<rparr>)"
proof (cases "find (\<lambda>x. id_user x = userId) (users d)")
  case None
  then show ?thesis
    by (simp add: logout_def user_update_def error_code_def map_id_absent)
next
  case (Some v)
  then show ?thesis
    by (simp add: logout_def user_update_def write_refresh_data)
qed

lemma logout_users:
  "users (snd (logout now d userId)) =
     map (\<lambda>x. if id_user x = userId
               then x\<lparr>refreshToken := None, refreshTokenExpires := None, updatedAt := now\<rparr>
               else x) (users d)"
  by (simp add: logout_result)

lemma logout_cleared:
  assumes "x \<in> set (users (snd (logout now d userId)))" and "id_user x = userId"
  shows "refreshToken x = None \<and> refreshTokenExpires x = None"
proof -
  from assms(1) obtain y where
    x: "x = (if id_user y = userId
             then y\<lparr>refreshToken := None, refreshTokenExpires := None, updatedAt := now\<rparr>
             else y)"
    unfolding logout_users set_map by blast
  show ?thesis
  proof (cases "id_user y = userId")
    case True
    with x show ?thesis by simp
  next
    case False
    with x assms(2) show ?thesis by simp
  qed
qed

lemma logout_absent:
  "find (\<lambda>x. id_user x = userId) (users d) = None \<Longrightarrow> snd (logout now d userId) = d"
  by (simp add: logout_result map_id_absent)

lemma logout_twice:
  "snd (logout now' (snd (logout now d userId)) userId) = snd (logout now' d userId)"
  by (simp add: logout_result comp_def cong: if_cong)

text \<open>
  C9. For every account id and every store, \<open>logout\<close> returns success; it leaves each
  row with that id with both refresh columns \<open>null\<close> and every other row as it was (so a
  store with no such row is unchanged); and a second \<open>logout\<close> leaves the store that a
  single one at the second instant leaves.
\<close>

theorem logout_always_succeeds:
  "fst (logout now d userId) = Inr ''Logout successful'' \<and>
   users (snd (logout now d userId)) =
     map (\<lambda>x. if id_user x = userId
               then x\<lparr>refreshToken := None, refreshTokenExpires := None, updatedAt := now\<rparr>
               else x) (users d) \<and>
   (\<forall>x \<in> set (users (snd (logout now d userId))).
      id_user x = userId \<longrightarrow> refreshToken x = None \<and> refreshTokenExpires x = None) \<and>
   (find (\<lambda>x. id_user x = userId) (users d) = None \<longrightarrow> snd (logout now d userId) = d) \<and>
   snd (logout now' (snd (logout now d userId)) userId) = snd (logout now' d userId)"
proof (intro conjI ballI impI)
  show "fst (logout now d userId) = Inr ''Logout successful''"
    by (simp add: logout_result)
  show "users (snd (logout now d userId)) =
     map (\<lambda>x. if id_user x = userId
               then x\<lparr>refreshToken := None, refreshTokenExpires := None, updatedAt := now\<rparr>
               else x) (users d)"
    by (rule logout_users)
  show "snd (logout now' (snd (logout now d userId)) userId) = snd (logout now' d userId)"
    by (rule logout_twice)
next
  fix x
  assume "x \<in> set (users (snd (logout now d userId)))" and "id_user x = userId"
  then show "refreshToken x = None" and "refreshTokenExpires x = None"
    using logout_cleared by blast+
next
  assume "find (\<lambda>x. id_user x = userId) (users d) = None"
  then show "snd (logout now d userId) = d"
    by (rule logout_absent)
qed

theorem logout_always_succeeds_witness:
  "fst (logout 60 db0 ''u3'') = Inr ''Logout successful'' \<and>
   users (snd (logout 60 db0 ''u3'')) =
     [alice, bob, carol\<lparr>refreshToken := None, refreshTokenExpires := None, updatedAt := 60\<rparr>] \<and>
   fst (logout 60 db0 ''u2'') = Inr ''Logout successful'' \<and>
   fst (logout 60 db0 ''u9'') = Inr ''Logout successful'' \<and>
   snd (logout 60 db0 ''u9'') = db0 \<and>
   snd (logout 70 (snd (logout 60 db0 ''u3'')) ''u3'') = snd (logout 70 db0 ''u3'')"
proof -
  have ids: "id_user alice = ''u1''" "id_user bob = ''u2''" "id_user carol = ''u3''"
    by (simp_all add: alice_def bob_def carol_def)
  have absent: "find (\<lambda>x. id_user x = ''u9'') (users db0) = None"
    by (simp add: db0_users ids)
  show ?thesis
    using logout_always_succeeds [of 60 db0 "''u3''" 70]
          logout_always_succeeds [of 60 db0 "''u2''" 70]
          logout_always_succeeds [of 60 db0 "''u9''" 70] absent
    by (simp add: db0_users ids)
qed

section \<open>Credential validation of inactive accounts\<close>

lemma validateUser_inactive:
  assumes "findUnique (\<lambda>u. email u = email') d = Some user" and "isActive user = False"
  shows "\<exists>body. validateUser env d email' pass = Inl (ForbiddenException body) \<and>
           map_of body ''error'' = Some (JStr ''Account Inactive'') \<and>
           map_of body ''email'' = Some (JStr (email user))"
  using assms by (simp add: validateUser_def)

lemma validateUser_error_only_inactive:
  assumes "validateUser env d email' pass = Inl e"
  shows "\<exists>user. findUnique (\<lambda>u. email u = email') d = Some user \<and> isActive user = False"
  using assms by (auto simp add: validateUser_def split: option.splits if_splits)

lemma validateUser_user_only_active:
  assumes "validateUser env d email' pass = Inr (Some obj)"
  shows "\<exists>u. findUnique (\<lambda>u. email u = email') d = Some u \<and> isActive u = True \<and>
           bcrypt_compare env pass (password u) \<and> obj = omit ''password'' (user_obj u)"
  using assms by (auto simp add: validateUser_def split: option.splits if_splits)

text \<open>
  C8, as amended. The credential check of login, \<open>validateUser\<close>, fails with the
  \<open>Account Inactive\<close> error for every existing account whose \<open>isActive\<close> flag is false,
  whatever the presented password (the password is not compared for such an account),
  and it fails in no other case. So \<open>validateUser\<close> never returns a user object for an
  inactive account: it returns one only for an existing active account whose password
  verifies, and then that account's row without the password.
\<close>

theorem validateUser_account_inactive:
  "(findUnique (\<lambda>u. email u = email') d = Some user \<and> isActive user = False \<longrightarrow>
      (\<exists>body. validateUser env d email' pass = Inl (ForbiddenException body) \<and>
         map_of body ''error'' = Some (JStr ''Account Inactive'') \<and>
         map_of body ''email'' = Some (JStr (email user)))) \<and>
   ((\<exists>e. validateUser env d email' pass = Inl e) \<longrightarrow>
      (\<exists>u. findUnique (\<lambda>u. email u = email') d = Some u \<and> isActive u = False)) \<and>
   (findUnique (\<lambda>u. email u = email') d = Some user \<and> isActive user = False \<longrightarrow>
      validateUser env d email' pass \<noteq> Inr (Some obj)) \<and>
   (validateUser env d email' pass = Inr (Some obj) \<longrightarrow>
      (\<exists>u. findUnique (\<lambda>u. email u = email') d = Some u \<and> isActive u = True \<and>
         bcrypt_compare env pass (password u) \<and> obj = omit ''password'' (user_obj u)))"
  using validateUser_inactive [of email' d user env pass]
        validateUser_error_only_inactive [of env d email' pass]
        validateUser_user_only_active [of env d email' pass obj]
  by auto

theorem validateUser_account_inactive_witness:
  "isActive bob = False \<and>
   \<not> bcrypt_compare env0 ''wrong'' (password bob) \<and>
   (\<exists>body. validateUser env0 db0 ''bob@example.com'' ''wrong'' = Inl (ForbiddenException body) \<and>
      map_of body ''error'' = Some (JStr ''Account Inactive'') \<and>
      map_of body ''email'' = Some (JStr ''bob@example.com'')) \<and>
   bcrypt_compare env0 ''hunter2'' (password bob) \<and>
   (\<exists>body. validateUser env0 db0 ''bob@example.com'' ''hunter2'' = Inl (ForbiddenException body) \<and>
      map_of body ''error'' = Some (JStr ''Account Inactive'') \<and>
      map_of body ''email'' = Some (JStr ''bob@example.com'')) \<and>
   validateUser env0 db0 ''bob@example.com'' ''hunter2'' \<noteq>
     Inr (Some (omit ''password'' (user_obj bob))) \<and>
   isActive carol = True \<and> bcrypt_compare env0 ''pass'' (password carol) \<and>
   validateUser env0 db0 ''carol@example.com'' ''pass'' =
     Inr (Some (omit ''password'' (user_obj carol)))"
proof -
  have c: "validateUser env0 db0 ''carol@example.com'' ''pass'' =
             Inr (Some (omit ''password'' (user_obj carol)))"
    by (simp add: validateUser_def findUnique_def sample_fields env0_fields)
  show ?thesis
    using validateUser_account_inactive [of "''bob@example.com''" db0 bob env0 "''wrong''"]
          validateUser_account_inactive [of "''bob@example.com''" db0 bob env0 "''hunter2''"
            "omit ''password'' (user_obj bob)"]
          validateUser_account_inactive [of "''carol@example.com''" db0 carol env0 "''pass''"
            "omit ''password'' (user_obj carol)"]
          findUnique_bob c
    by (simp add: bob_fields carol_fields env0_fields)
qed

text \<open>
  The claim as stated has the error only for valid credentials. At the sample store,
  \<open>bob\<close> is inactive and the password \<open>wrong\<close> does not verify against his hash, and
  the error is raised all the same.
\<close>

theorem validateUser_inactive_wrong_password_counterexample:
  "\<not> bcrypt_compare env0 ''wrong'' (password bob) \<and>
   validateUser env0 db0 ''bob@example.com'' ''wrong'' =
     Inl (ForbiddenException
       [(''error'', JStr ''Account Inactive''),
        (''message'', JStr ''Account is not active. Please check your email for activation instructions.''),
        (''email'', JStr ''bob@example.com''),
        (''activationTokenExpires'', JDate 100),
        (''resolution'', JStr ''Check your email or contact us for assistance.''),
        (''statusCode'', JNum 403)])"
  by (simp add: validateUser_def findUnique_bob bob_fields env0_fields opt_date_def)

text \<open>
  The statement above is about the credential check alone. \<open>refreshToken\<close> reads
  \<open>isActive\<close> nowhere: at the sample store with \<open>carol\<close> deactivated while she holds her
  refresh token (as an update of her \<open>isActive\<close> column leaves her), the token is rotated
  and a new pair is returned.
\<close>

lemma refreshToken_inactive_account:
  "isActive (carol\<lparr>isActive := False\<rparr>) = False \<and>
   refreshToken_op env0 5 (db0\<lparr>users := [alice, bob, carol\<lparr>isActive := False\<rparr>]\<rparr>) ''refresh.u3.'' =
     (Inr \<lparr>access_token = ''access.u3.iiiii'', refresh_token = ''refresh.u3.iiiii''\<rparr>,
      db0\<lparr>users := [alice, bob,
                     carol\<lparr>isActive := False, refreshToken := Some ''refresh.u3.iiiii'',
                           refreshTokenExpires := Some 604800005, updatedAt := 5\<rparr>]\<rparr>)"
proof -
  let ?d = "db0\<lparr>users := [alice, bob, carol\<lparr>isActive := False\<rparr>]\<rparr>"
  have f: "refreshToken_find 5 ?d ''refresh.u3.'' = Inr (carol\<lparr>isActive := False\<rparr>)"
    by (simp add: refreshToken_find_def findUnique_def sample_fields gt_def)
  have s: "refreshJwtService_sign env0 ''carol@example.com'' ''u3'' 5 = ''refresh.u3.iiiii''"
          "jwtService_sign env0 ''carol@example.com'' ''u3'' 5 = ''access.u3.iiiii''"
    by (simp_all add: env0_def eval_nat_numeral)
  have v: "refreshJwtService_verify env0 ''refresh.u3.'' 5"
    by (simp add: env0_def)
  have uv: "unique_violation (refresh_data (Some ''refresh.u3.iiiii'') (Some 604800005))
              [alice, bob] = []"
    by (simp add: unique_violation_def refresh_data_def no_data_def alice_fields bob_fields)
  have u: "user_update ''u3'' (refresh_data (Some ''refresh.u3.iiiii'') (Some 604800005)) 5 ?d =
             Inr (carol\<lparr>isActive := False, refreshToken := Some ''refresh.u3.iiiii'',
                        refreshTokenExpires := Some 604800005, updatedAt := 5\<rparr>,
                  db0\<lparr>users := [alice, bob,
                     carol\<lparr>isActive := False, refreshToken := Some ''refresh.u3.iiiii'',
                           refreshTokenExpires := Some 604800005, updatedAt := 5\<rparr>]\<rparr>)"
    by (simp add: user_update_def sample_fields write_refresh_data uv)
  show ?thesis
    by (simp add: refreshToken_op_def refreshToken_rotate_def Let_def f s u v carol_fields)
qed

section \<open>Consuming a reset token\<close>

lemma str_field_id [simp]: "str_field ''id'' (omit ''password'' (user_obj u)) = id_user u"
  by (simp add: str_field_def omit_def user_obj_def)

lemma findByResetToken_empty:
  "findByResetToken now d [] = Inl (NotFoundException ''Reset token is required.'')"
  by (simp add: findByResetToken_def)

lemma findByResetToken_unknown:
  "t \<noteq> [] \<Longrightarrow> findUnique (\<lambda>u. resetToken u = Some t) d = None \<Longrightarrow>
     findByResetToken now d t = Inl (NotFoundException ''Invalid reset token.'')"
  by (simp add: findByResetToken_def)

lemma findByResetToken_expired:
  "t \<noteq> [] \<Longrightarrow> findUnique (\<lambda>u. resetToken u = Some t) d = Some user \<Longrightarrow>
   expired (resetTokenExpiry user) now \<Longrightarrow>
     findByResetToken now d t = Inl (NotFoundException ''Reset token has expired.'')"
  by (simp add: findByResetToken_def)

lemma findByResetToken_valid:
  "t \<noteq> [] \<Longrightarrow> findUnique (\<lambda>u. resetToken u = Some t) d = Some user \<Longrightarrow>
   \<not> expired (resetTokenExpiry user) now \<Longrightarrow>
     findByResetToken now d t = Inr (omit ''password'' (user_obj user))"
  by (simp add: findByResetToken_def)

lemma updatePassword_update_member:
  assumes "user \<in> set (users d)"
  shows "\<exists>r. updatePassword_update env now d (omit ''password'' (user_obj user)) newPassword =
           (Inr r,
            d\<lparr>users := map (\<lambda>x. if id_user x = id_user user
                                then x\<lparr>password := hashPassword env newPassword,
                                       resetToken := None, resetTokenExpiry := None,
                                       updatedAt := now\<rparr>
                                else x) (users d)\<rparr>)"
proof -
  obtain v where "user_update (id_user user)
        ((reset_data None None)\<lparr>data_password := Some (hashPassword env newPassword)\<rparr>) now d =
      Inr (v, d\<lparr>users := map (\<lambda>x. if id_user x = id_user user
                 then write_data ((reset_data None None)\<lparr>data_password := Some (hashPassword env newPassword)\<rparr>) now x
                 else x) (users d)\<rparr>)"
    using user_update_member [OF assms, of "(reset_data None None)\<lparr>data_password := Some (hashPassword env newPassword)\<rparr>" now]
    by auto
  then show ?thesis
    by (simp add: updatePassword_update_def write_reset_data)
qed

lemma findUnique_reset_ab12: "findUnique (\<lambda>u. resetToken u = Some ''ab12'') db0 = Some alice"
  by (simp add: findUnique_def sample_fields)

lemma findUnique_reset_zz99: "findUnique (\<lambda>u. resetToken u = Some ''zz99'') db0 = None"
  by (simp add: findUnique_def sample_fields)

text \<open>
  C7, as amended. \<open>updatePassword\<close> fails with \<open>NotFoundException\<close> when the token is
  empty, when no account holds it, and when the account's expiry is \<open>null\<close> or lies
  before \<open>now\<close>; the three messages differ, and the store is left as it was. Otherwise
  it succeeds, and one update writes the hash of the new password and \<open>null\<close> into both
  reset columns of the account.
\<close>

theorem updatePassword_outcomes:
  "(updatePassword env now d [] newPassword =
      (Inl (NotFoundException ''Reset token is required.''), d)) \<and>
   (t \<noteq> [] \<and> findUnique (\<lambda>u. resetToken u = Some t) d = None \<longrightarrow>
      updatePassword env now d t newPassword =
        (Inl (NotFoundException ''Invalid reset token.''), d)) \<and>
   (t \<noteq> [] \<and> findUnique (\<lambda>u. resetToken u = Some t) d = Some user \<and>
    expired (resetTokenExpiry user) now \<longrightarrow>
      updatePassword env now d t newPassword =
        (Inl (NotFoundException ''Reset token has expired.''), d)) \<and>
   (t \<noteq> [] \<and> findUnique (\<lambda>u. resetToken u = Some t) d = Some user \<and>
    \<not> expired (resetTokenExpiry user) now \<longrightarrow>
      (\<exists>r. updatePassword env now d t newPassword =
         (Inr r,
          d\<lparr>users := map (\<lambda>x. if id_user x = id_user user
                              then x\<lparr>password := hashPassword env newPassword,
                                     resetToken := None, resetTokenExpiry := None,
                                     updatedAt := now\<rparr>
                              else x) (users d)\<rparr>)))"
proof (intro conjI impI)
  show "updatePassword env now d [] newPassword =
      (Inl (NotFoundException ''Reset token is required.''), d)"
    by (simp add: updatePassword_def findByResetToken_empty)
next
  assume "t \<noteq> [] \<and> findUnique (\<lambda>u. resetToken u = Some t) d = None"
  then show "updatePassword env now d t newPassword =
        (Inl (NotFoundException ''Invalid reset token.''), d)"
    by (simp add: updatePassword_def findByResetToken_unknown)
next
  assume "t \<noteq> [] \<and> findUnique (\<lambda>u. resetToken u = Some t) d = Some user \<and>
    expired (resetTokenExpiry user) now"
  then show "updatePassword env now d t newPassword =
        (Inl (NotFoundException ''Reset token has expired.''), d)"
    by (simp add: updatePassword_def findByResetToken_expired)
next
  assume a: "t \<noteq> [] \<and> findUnique (\<lambda>u. resetToken u = Some t) d = Some user \<and>
    \<not> expired (resetTokenExpiry user) now"
  then have "user \<in> set (users d)"
    using findUnique_member by blast
  from updatePassword_update_member [OF this, of env now newPassword] a
  show "\<exists>r. updatePassword env now d t newPassword =
         (Inr r,
          d\<lparr>users := map (\<lambda>x. if id_user x = id_user user
                              then x\<lparr>password := hashPassword env newPassword,
                                     resetToken := None, resetTokenExpiry := None,
                                     updatedAt := now\<rparr>
                              else x) (users d)\<rparr>)"
    by (simp add: updatePassword_def findByResetToken_valid)
qed

theorem updatePassword_outcomes_witness:
  "updatePassword env0 50 db0 [] ''newpw'' =
     (Inl (NotFoundException ''Reset token is required.''), db0) \<and>
   updatePassword env0 50 db0 ''zz99'' ''newpw'' =
     (Inl (NotFoundException ''Invalid reset token.''), db0) \<and>
   updatePassword env0 101 db0 ''ab12'' ''newpw'' =
     (Inl (NotFoundException ''Reset token has expired.''), db0) \<and>
   (\<exists>r. updatePassword env0 50 db0 ''ab12'' ''newpw'' =
      (Inr r,
       db0\<lparr>users := [alice\<lparr>password := ''hash:newpw'', resetToken := None,
                              resetTokenExpiry := None, updatedAt := 50\<rparr>, bob, carol]\<rparr>))"
  using updatePassword_outcomes [of env0 50 db0 "''newpw''" "''zz99''" alice]
        updatePassword_outcomes [of env0 101 db0 "''newpw''" "''ab12''" alice]
        updatePassword_outcomes [of env0 50 db0 "''newpw''" "''ab12''" alice]
        findUnique_reset_ab12 findUnique_reset_zz99
  by (simp add: sample_fields expired_def hashPassword_def env0_fields)

text \<open>
  The claim as stated has the error kind \<open>Unauthorized\<close> and one indistinguishable
  failure. At the sample store, a token no account holds and an expired token both fail
  with \<open>NotFoundException\<close>, under different messages.
\<close>

theorem updatePassword_not_unauthorized_counterexample:
  "updatePassword env0 50 db0 ''zz99'' ''newpw'' =
     (Inl (NotFoundException ''Invalid reset token.''), db0) \<and>
   updatePassword env0 101 db0 ''ab12'' ''newpw'' =
     (Inl (NotFoundException ''Reset token has expired.''), db0)"
  by (simp add: updatePassword_def findByResetToken_def findUnique_reset_ab12
        findUnique_reset_zz99 alice_fields expired_def)

section \<open>The expiry boundary\<close>

lemma find_None_all: "(\<forall>x\<in>set xs. \<not> P x) \<Longrightarrow> find P xs = None"
  by (simp add: find_None_iff)

lemma refreshToken_find_not_after:
  assumes "\<forall>u\<in>set (users d). refreshToken u = Some token \<longrightarrow>
             (\<exists>e. refreshTokenExpires u = Some e \<and> e \<le> now)"
  shows "refreshToken_find now d token = Inl (UnauthorizedException ''Invalid or expired refresh token'')"
proof -
  have "\<forall>u\<in>set (users d). \<not> (refreshToken u = Some token \<and> gt (refreshTokenExpires u) now)"
    using assms by (auto simp add: gt_def)
  then have "findUnique (\<lambda>u. refreshToken u = Some token \<and> gt (refreshTokenExpires u) now) d = None"
    unfolding findUnique_def by (rule find_None_all)
  then show ?thesis
    by (simp add: refreshToken_find_def)
qed

lemma activateUser_find_expired:
  "findByActivationToken d token = Some user \<Longrightarrow> expired (activationTokenExpires user) now \<Longrightarrow>
     activateUser_find now d token = Inl (UnauthorizedException ''Activation token has expired.'')"
  by (simp add: activateUser_find_def)

lemma activateUser_find_valid:
  "findByActivationToken d token = Some user \<Longrightarrow> \<not> expired (activationTokenExpires user) now \<Longrightarrow>
     activateUser_find now d token = Inr user"
  by (simp add: activateUser_find_def)

lemma findByActivationToken_member:
  "findByActivationToken d token = Some user \<Longrightarrow>
     user \<in> set (users d) \<and> activationToken user = Some token \<and> token \<noteq> []"
  using findUnique_member [of "\<lambda>u. activationToken u = Some token" d user]
  by (simp add: findByActivationToken_def split: if_splits)

lemma activateUser_update_member:
  assumes "user \<in> set (users d)"
  shows "\<exists>r. activateUser_update now d user =
           (Inr r,
            d\<lparr>users := map (\<lambda>x. if id_user x = id_user user
                                then x\<lparr>isActive := True, activationToken := None,
                                       activationTokenExpires := None, updatedAt := now\<rparr>
                                else x) (users d)\<rparr>)"
proof -
  obtain v where "user_update (id_user user)
        ((activation_data None None)\<lparr>data_isActive := Some True\<rparr>) now d =
      Inr (v, d\<lparr>users := map (\<lambda>x. if id_user x = id_user user
                 then write_data ((activation_data None None)\<lparr>data_isActive := Some True\<rparr>) now x
                 else x) (users d)\<rparr>)"
    using user_update_member [OF assms, of "(activation_data None None)\<lparr>data_isActive := Some True\<rparr>" now]
    by auto
  then show ?thesis
    by (simp add: activateUser_update_def write_activation_data)
qed

lemma findByActivationToken_cd34: "findByActivationToken db0 ''cd34'' = Some bob"
  by (simp add: findByActivationToken_def findUnique_def sample_fields)

lemma user_update_bob:
  "user_update ''u2'' ((activation_data None None)\<lparr>data_isActive := Some True\<rparr>) 100 db0 =
     Inr (bob\<lparr>isActive := True, activationToken := None, activationTokenExpires := None, updatedAt := 100\<rparr>,
          db0\<lparr>users := [alice, bob\<lparr>isActive := True, activationToken := None,
                                   activationTokenExpires := None, updatedAt := 100\<rparr>, carol]\<rparr>)"
  by (simp add: user_update_def sample_fields write_activation_data)

text \<open>
  C5, as amended. A refresh token whose stored expiry equals \<open>now\<close> or lies before it
  fails validation. An activation token and a reset token whose stored expiry lies
  before \<open>now\<close> fail validation; one whose stored expiry equals \<open>now\<close> is still accepted.
\<close>

theorem expiry_boundaries:
  "((\<forall>u\<in>set (users d). refreshToken u = Some token \<longrightarrow>
       (\<exists>e. refreshTokenExpires u = Some e \<and> e \<le> now)) \<longrightarrow>
      refreshToken_op env now d token =
        (Inl (UnauthorizedException ''Invalid or expired refresh token''), d)) \<and>
   (findByActivationToken d token = Some user \<and> activationTokenExpires user = Some e \<and> e < now \<longrightarrow>
      activateUser now d token =
        (Inl (UnauthorizedException ''Activation token has expired.''), d)) \<and>
   (findByActivationToken d token = Some user \<and> activationTokenExpires user = Some now \<longrightarrow>
      (\<exists>r d'. activateUser now d token = (Inr r, d'))) \<and>
   (token \<noteq> [] \<and> findUnique (\<lambda>u. resetToken u = Some token) d = Some user \<and>
    resetTokenExpiry user = Some e \<and> e < now \<longrightarrow>
      updatePassword env now d token newPassword =
        (Inl (NotFoundException ''Reset token has expired.''), d)) \<and>
   (token \<noteq> [] \<and> findUnique (\<lambda>u. resetToken u = Some token) d = Some user \<and>
    resetTokenExpiry user = Some now \<longrightarrow>
      (\<exists>r d'. updatePassword env now d token newPassword = (Inr r, d')))"
proof (intro conjI impI)
  assume "\<forall>u\<in>set (users d). refreshToken u = Some token \<longrightarrow>
       (\<exists>e. refreshTokenExpires u = Some e \<and> e \<le> now)"
  then show "refreshToken_op env now d token =
        (Inl (UnauthorizedException ''Invalid or expired refresh token''), d)"
    by (simp add: refreshToken_op_def refreshToken_find_not_after)
next
  assume "findByActivationToken d token = Some user \<and> activationTokenExpires user = Some e \<and> e < now"
  then show "activateUser now d token =
        (Inl (UnauthorizedException ''Activation token has expired.''), d)"
    by (simp add: activateUser_def activateUser_find_expired expired_def)
next
  assume a: "findByActivationToken d token = Some user \<and> activationTokenExpires user = Some now"
  then have "activateUser_find now d token = Inr user"
    by (simp add: activateUser_find_valid expired_def)
  moreover from a have "user \<in> set (users d)"
    using findByActivationToken_member by blast
  ultimately show "\<exists>r d'. activateUser now d token = (Inr r, d')"
    using activateUser_update_member [of user d now]
    by (auto simp add: activateUser_def)
next
  assume "token \<noteq> [] \<and> findUnique (\<lambda>u. resetToken u = Some token) d = Some user \<and>
    resetTokenExpiry user = Some e \<and> e < now"
  then show "updatePassword env now d token newPassword =
        (Inl (NotFoundException ''Reset token has expired.''), d)"
    by (simp add: updatePassword_def findByResetToken_expired expired_def)
next
  assume a: "token \<noteq> [] \<and> findUnique (\<lambda>u. resetToken u = Some token) d = Some user \<and>
    resetTokenExpiry user = Some now"
  then have "findByResetToken now d token = Inr (omit ''password'' (user_obj user))"
    by (simp add: findByResetToken_valid expired_def)
  moreover from a have "user \<in> set (users d)"
    using findUnique_member by blast
  ultimately show "\<exists>r d'. updatePassword env now d token newPassword = (Inr r, d')"
    using updatePassword_update_member [of user d env now newPassword]
    by (auto simp add: updatePassword_def)
qed

theorem expiry_boundaries_witness:
  "refreshToken carol = Some ''refresh.u3.'' \<and> refreshTokenExpires carol = Some 100 \<and>
   refreshToken_op env0 100 db0 ''refresh.u3.'' =
     (Inl (UnauthorizedException ''Invalid or expired refresh token''), db0) \<and>
   activateUser 101 db0 ''cd34'' =
     (Inl (UnauthorizedException ''Activation token has expired.''), db0) \<and>
   (\<exists>r d'. activateUser 100 db0 ''cd34'' = (Inr r, d')) \<and>
   updatePassword env0 101 db0 ''ab12'' ''newpw'' =
     (Inl (NotFoundException ''Reset token has expired.''), db0) \<and>
   (\<exists>r d'. updatePassword env0 100 db0 ''ab12'' ''newpw'' = (Inr r, d'))"
  using expiry_boundaries [of db0 "''refresh.u3.''" 100 env0 carol 100 "''newpw''"]
        expiry_boundaries [of db0 "''cd34''" 101 env0 bob 100 "''newpw''"]
        expiry_boundaries [of db0 "''cd34''" 100 env0 bob 100 "''newpw''"]
        expiry_boundaries [of db0 "''ab12''" 101 env0 alice 100 "''newpw''"]
        expiry_boundaries [of db0 "''ab12''" 100 env0 alice 100 "''newpw''"]
        findByActivationToken_cd34 findUnique_reset_ab12
  by (simp add: sample_fields)

text \<open>
  The claim as stated treats every token whose expiry equals the current instant as
  expired. At the sample store, the activation token of \<open>bob\<close> expires at 100, and
  \<open>activateUser\<close> at instant 100 accepts it and activates the account.
\<close>

theorem activation_accepted_at_expiry_counterexample:
  "activationToken bob = Some ''cd34'' \<and> activationTokenExpires bob = Some 100 \<and>
   activateUser 100 db0 ''cd34'' =
     (Inr (omit ''password'' (user_obj
        (bob\<lparr>isActive := True, activationToken := None, activationTokenExpires := None,
              updatedAt := 100\<rparr>))),
      db0\<lparr>users := [alice, bob\<lparr>isActive := True, activationToken := None,
                               activationTokenExpires := None, updatedAt := 100\<rparr>, carol]\<rparr>)"
  by (simp add: activateUser_def activateUser_find_def findByActivationToken_cd34
        activateUser_update_def user_update_bob bob_fields expired_def)

section \<open>Token columns and their expiry columns\<close>



lemma data_pairs_simps [simp]:
  "data_pairs (refresh_data None None)"
  "data_pairs (refresh_data (Some t) (Some e))"
  "data_pairs ((activation_data None None)\<lparr>data_isActive := b\<rparr>)"
  "data_pairs (activation_data (Some t) (Some e))"
  "data_pairs ((reset_data None None)\<lparr>data_password := p\<rparr>)"
  "data_pairs (reset_data (Some t) (Some e))"
  "data_pairs (no_data\<lparr>data_password := p\<rparr>)"
  by (simp_all add: data_pairs_def pair_written_def paired_def refresh_data_def
        activation_data_def reset_data_def no_data_def)

lemma sendEmail_pairs [simp]: "db_token_pairs (sendEmail to subject body d) = db_token_pairs d"
  by (simp add: db_token_pairs_def sendEmail_def)














section \<open>Single use of a token\<close>

lemma id_user_write_data [simp]: "id_user (write_data dt now x) = id_user x"
  by (simp add: write_data_def)

lemma id_kept_after_map:
  assumes "x \<in> set xs" and "id_user x = i" and "\<And>y. id_user (f y) = id_user y"
  shows "\<exists>z \<in> set (map (\<lambda>x. if id_user x = i then f x else x) xs). id_user z = i"
proof -
  from assms(1,2) have "f x \<in> set (map (\<lambda>x. if id_user x = i then f x else x) xs)"
    by force
  with assms(2,3) show ?thesis
    by auto
qed

text \<open>
  Under the unique index, once the rows of the holder's account are overwritten with
  something other than the token, no row holds the token.
\<close>

lemma no_holder_after_write:
  assumes uniq: "unique_column col d"
      and mem: "user \<in> set (users d)" and holds: "col user = Some token"
      and f: "\<And>x. col (f x) \<noteq> Some token"
  shows "\<forall>y \<in> set (map (\<lambda>x. if id_user x = id_user user then f x else x) (users d)).
           col y \<noteq> Some token"
proof
  fix y
  assume "y \<in> set (map (\<lambda>x. if id_user x = id_user user then f x else x) (users d))"
  then obtain x where x: "x \<in> set (users d)"
      and y: "y = (if id_user x = id_user user then f x else x)"
    by auto
  show "col y \<noteq> Some token"
  proof (cases "id_user x = id_user user")
    case True
    with y f show ?thesis by simp
  next
    case False
    have "col x \<noteq> Some token"
    proof
      assume "col x = Some token"
      with holds have "col user \<noteq> None \<and> col user = col x" by simp
      with uniq mem x have "id_user user = id_user x"
        unfolding unique_column_def by blast
      with False show False by simp
    qed
    with y False show ?thesis by simp
  qed
qed

lemma activateUser_find_Inr:
  "activateUser_find now d token = Inr user \<Longrightarrow>
     findByActivationToken d token = Some user \<and> \<not> expired (activationTokenExpires user) now"
  by (auto simp add: activateUser_find_def split: option.splits if_splits)

lemma findByResetToken_Inr:
  "findByResetToken now d t = Inr obj \<Longrightarrow>
     \<exists>user. t \<noteq> [] \<and> findUnique (\<lambda>u. resetToken u = Some t) d = Some user \<and>
       \<not> expired (resetTokenExpiry user) now \<and> obj = omit ''password'' (user_obj user)"
  by (auto simp add: findByResetToken_def split: option.splits if_splits)

lemma activateUser_update_id:
  assumes "x \<in> set (users d)" and "id_user x = id_user user"
  shows "\<exists>r. activateUser_update now d user =
           (Inr r,
            d\<lparr>users := map (\<lambda>x. if id_user x = id_user user
                                then x\<lparr>isActive := True, activationToken := None,
                                       activationTokenExpires := None, updatedAt := now\<rparr>
                                else x) (users d)\<rparr>)"
proof -
  have "activateUser_update now d user = activateUser_update now d x"
    using assms(2) by (simp add: activateUser_update_def)
  with activateUser_update_member [OF assms(1), of now] assms(2) show ?thesis
    by simp
qed

lemma updatePassword_update_id:
  assumes "x \<in> set (users d)" and "id_user x = id_user user"
  shows "\<exists>r. updatePassword_update env now d (omit ''password'' (user_obj user)) newPassword =
           (Inr r,
            d\<lparr>users := map (\<lambda>x. if id_user x = id_user user
                                then x\<lparr>password := hashPassword env newPassword,
                                       resetToken := None, resetTokenExpiry := None,
                                       updatedAt := now\<rparr>
                                else x) (users d)\<rparr>)"
proof -
  have "updatePassword_update env now d (omit ''password'' (user_obj user)) newPassword =
        updatePassword_update env now d (omit ''password'' (user_obj x)) newPassword"
    using assms(2) by (simp add: updatePassword_update_def)
  with updatePassword_update_member [OF assms(1), of env now newPassword] assms(2) show ?thesis
    by simp
qed

subsection \<open>One request after the other\<close>

lemma activateUser_twice:
  assumes uniq: "unique_column activationToken d"
      and first: "activateUser now d token = (Inr r, d')"
  shows "activateUser now' d' token = (Inl (UnauthorizedException ''Invalid activation token.''), d')"
proof -
  from first obtain user where found: "activateUser_find now d token = Inr user"
      and upd: "activateUser_update now d user = (Inr r, d')"
    by (auto simp add: activateUser_def split: sum.splits)
  from found have "findByActivationToken d token = Some user"
    using activateUser_find_Inr by blast
  then have mem: "user \<in> set (users d)" and holds: "activationToken user = Some token"
    using findByActivationToken_member by blast+
  from activateUser_update_member [OF mem, of now] upd
  have d': "users d' = map (\<lambda>x. if id_user x = id_user user
                                then x\<lparr>isActive := True, activationToken := None,
                                       activationTokenExpires := None, updatedAt := now\<rparr>
                                else x) (users d)"
    by auto
  have "\<forall>y \<in> set (users d'). activationToken y \<noteq> Some token"
    unfolding d' by (rule no_holder_after_write [OF uniq mem holds]) simp
  then have "findUnique (\<lambda>u. activationToken u = Some token) d' = None"
    unfolding findUnique_def by (rule find_None_all)
  then show ?thesis
    by (simp add: activateUser_def activateUser_find_def findByActivationToken_def)
qed

lemma updatePassword_twice:
  assumes uniq: "unique_column resetToken d"
      and first: "updatePassword env now d token newPassword = (Inr r, d')"
  shows "updatePassword env' now' d' token newPassword' =
           (Inl (NotFoundException ''Invalid reset token.''), d')"
proof -
  from first obtain obj where found: "findByResetToken now d token = Inr obj"
      and upd: "updatePassword_update env now d obj newPassword = (Inr r, d')"
    by (auto simp add: updatePassword_def split: sum.splits)
  from findByResetToken_Inr [OF found] obtain user where ne: "token \<noteq> []"
      and fu: "findUnique (\<lambda>u. resetToken u = Some token) d = Some user"
      and obj: "obj = omit ''password'' (user_obj user)"
    by blast
  from fu have mem: "user \<in> set (users d)" and holds: "resetToken user = Some token"
    using findUnique_member [of "\<lambda>u. resetToken u = Some token" d user] by blast+
  from updatePassword_update_member [OF mem, of env now newPassword] upd obj
  have d': "users d' = map (\<lambda>x. if id_user x = id_user user
                                then x\<lparr>password := hashPassword env newPassword,
                                       resetToken := None, resetTokenExpiry := None,
                                       updatedAt := now\<rparr>
                                else x) (users d)"
    by auto
  have "\<forall>y \<in> set (users d'). resetToken y \<noteq> Some token"
    unfolding d' by (rule no_holder_after_write [OF uniq mem holds]) simp
  then have "findUnique (\<lambda>u. resetToken u = Some token) d' = None"
    unfolding findUnique_def by (rule find_None_all)
  with ne show ?thesis
    by (simp add: updatePassword_def findByResetToken_def)
qed

lemma refreshToken_twice:
  assumes uniq: "unique_column refreshToken d"
      and first: "refreshToken_op env now d token = (Inr tokens, d')"
      and fresh: "refresh_token tokens \<noteq> token"
  shows "refreshToken_op env' now' d' token =
           (Inl (UnauthorizedException ''Invalid or expired refresh token''), d')"
proof -
  from first obtain dbUser where found: "refreshToken_find now d token = Inr dbUser"
      and rot: "refreshToken_rotate env now d token dbUser = (Inr tokens, d')"
    by (auto simp add: refreshToken_op_def split: sum.splits)
  from found have fu: "findUnique (\<lambda>u. refreshToken u = Some token \<and> gt (refreshTokenExpires u) now) d = Some dbUser"
    by (auto simp add: refreshToken_find_def split: option.splits)
  then have mem: "dbUser \<in> set (users d)" and holds: "refreshToken dbUser = Some token"
    using findUnique_member [of "\<lambda>u. refreshToken u = Some token \<and> gt (refreshTokenExpires u) now" d dbUser]
    by blast+
  define new where "new = refreshJwtService_sign env (email dbUser) (id_user dbUser) now"
  from rot have tok: "refresh_token tokens = new"
    and d': "users d' = map (\<lambda>x. if id_user x = id_user dbUser
                 then write_data (refresh_data (Some new) (Some (now + 7 * 24 * 60 * 60 * 1000))) now x
                 else x) (users d)"
    by (auto simp add: refreshToken_rotate_def user_update_def Let_def new_def
          split: if_splits sum.splits option.splits)
  from tok fresh have "new \<noteq> token" by simp
  then have "\<forall>y \<in> set (users d'). refreshToken y \<noteq> Some token"
    unfolding d'
    by (intro no_holder_after_write [OF uniq mem holds]) (simp add: write_refresh_data)
  then have "\<forall>y \<in> set (users d'). \<not> (refreshToken y = Some token \<and> gt (refreshTokenExpires y) now')"
    by blast
  then have "findUnique (\<lambda>u. refreshToken u = Some token \<and> gt (refreshTokenExpires u) now') d' = None"
    unfolding findUnique_def by (rule find_None_all)
  then show ?thesis
    by (simp add: refreshToken_op_def refreshToken_find_def)
qed

subsection \<open>Both lookups before either write\<close>

lemma activateUser_both_succeed:
  assumes fa: "activateUser_find a d token = Inr user"
      and fb: "activateUser_find b d token = Inr user"
  shows "\<exists>rA rB d2. activateUser_interleaved a b d token = ((Inr rA, Inr rB), d2)"
proof -
  from fa have mem: "user \<in> set (users d)"
    using activateUser_find_Inr findByActivationToken_member by blast
  define d1 where "d1 = d\<lparr>users := map (\<lambda>x. if id_user x = id_user user
                                then x\<lparr>isActive := True, activationToken := None,
                                       activationTokenExpires := None, updatedAt := a\<rparr>
                                else x) (users d)\<rparr>"
  obtain rA where A: "activateUser_update a d user = (Inr rA, d1)"
    using activateUser_update_member [OF mem, of a] unfolding d1_def by blast
  have "\<exists>z \<in> set (users d1). id_user z = id_user user"
    unfolding d1_def using id_kept_after_map [OF mem refl] by simp
  then obtain z where "z \<in> set (users d1)" and "id_user z = id_user user"
    by blast
  then obtain rB d2 where B: "activateUser_update b d1 user = (Inr rB, d2)"
    using activateUser_update_id [of z d1 user b] by blast
  show ?thesis
    by (simp add: activateUser_interleaved_def interleaved_def fa fb A B)
qed

lemma updatePassword_both_succeed:
  assumes fa: "findByResetToken a d token = Inr obj"
      and fb: "findByResetToken b d token = Inr obj"
  shows "\<exists>rA rB d2. updatePassword_interleaved env a b d token passwordA passwordB =
           ((Inr rA, Inr rB), d2)"
proof -
  from findByResetToken_Inr [OF fa] obtain user where
      fu: "findUnique (\<lambda>u. resetToken u = Some token) d = Some user"
      and obj: "obj = omit ''password'' (user_obj user)"
    by blast
  from fu have mem: "user \<in> set (users d)"
    using findUnique_member by blast
  define d1 where "d1 = d\<lparr>users := map (\<lambda>x. if id_user x = id_user user
                                then x\<lparr>password := hashPassword env passwordA,
                                       resetToken := None, resetTokenExpiry := None,
                                       updatedAt := a\<rparr>
                                else x) (users d)\<rparr>"
  obtain rA where A: "updatePassword_update env a d obj passwordA = (Inr rA, d1)"
    using updatePassword_update_member [OF mem, of env a passwordA] unfolding d1_def obj by blast
  have "\<exists>z \<in> set (users d1). id_user z = id_user user"
    unfolding d1_def using id_kept_after_map [OF mem refl] by simp
  then obtain z where "z \<in> set (users d1)" and "id_user z = id_user user"
    by blast
  then obtain rB d2 where B: "updatePassword_update env b d1 obj passwordB = (Inr rB, d2)"
    using updatePassword_update_id [of z d1 user env b passwordB] unfolding obj by blast
  show ?thesis
    by (simp add: updatePassword_interleaved_def interleaved_def fa fb A B)
qed

subsection \<open>The sample store under both schedules\<close>

lemma db0_unique:
  "unique_column activationToken db0" "unique_column resetToken db0" "unique_column refreshToken db0"
  by (simp_all add: unique_column_def sample_fields)

lemma activateUser_find_bob:
  "activateUser_find 50 db0 ''cd34'' = Inr bob" "activateUser_find 60 db0 ''cd34'' = Inr bob"
  by (simp_all add: activateUser_find_def findByActivationToken_cd34 bob_fields expired_def)

lemma findByResetToken_alice:
  "findByResetToken 50 db0 ''ab12'' = Inr (omit ''password'' (user_obj alice))"
  "findByResetToken 60 db0 ''ab12'' = Inr (omit ''password'' (user_obj alice))"
  by (simp_all add: findByResetToken_def findUnique_reset_ab12 alice_fields expired_def)

lemma user_update_bob_50:
  "user_update ''u2'' ((activation_data None None)\<lparr>data_isActive := Some True\<rparr>) 50 db0 =
     Inr (bob\<lparr>isActive := True, activationToken := None, activationTokenExpires := None, updatedAt := 50\<rparr>,
          db0\<lparr>users := [alice, bob\<lparr>isActive := True, activationToken := None,
                                   activationTokenExpires := None, updatedAt := 50\<rparr>, carol]\<rparr>)"
  by (simp add: user_update_def sample_fields write_activation_data)

lemma user_update_bob_60:
  "user_update ''u2'' ((activation_data None None)\<lparr>data_isActive := Some True\<rparr>) 60
     (db0\<lparr>users := [alice, bob\<lparr>isActive := True, activationToken := None,
                              activationTokenExpires := None, updatedAt := 50\<rparr>, carol]\<rparr>) =
     Inr (bob\<lparr>isActive := True, activationToken := None, activationTokenExpires := None, updatedAt := 60\<rparr>,
          db0\<lparr>users := [alice, bob\<lparr>isActive := True, activationToken := None,
                                   activationTokenExpires := None, updatedAt := 60\<rparr>, carol]\<rparr>)"
  by (simp add: user_update_def sample_fields write_activation_data)

lemma refreshToken_carol:
  "refreshToken_op env0 5 db0 ''refresh.u3.'' =
     (Inr \<lparr>access_token = ''access.u3.iiiii'', refresh_token = ''refresh.u3.iiiii''\<rparr>,
      db0\<lparr>users := [alice, bob,
                     carol\<lparr>refreshToken := Some ''refresh.u3.iiiii'',
                           refreshTokenExpires := Some 604800005, updatedAt := 5\<rparr>]\<rparr>)"
proof -
  have f: "refreshToken_find 5 db0 ''refresh.u3.'' = Inr carol"
    by (simp add: refreshToken_find_def findUnique_def sample_fields gt_def)
  have s: "refreshJwtService_sign env0 ''carol@example.com'' ''u3'' 5 = ''refresh.u3.iiiii''"
          "jwtService_sign env0 ''carol@example.com'' ''u3'' 5 = ''access.u3.iiiii''"
    by (simp_all add: env0_def eval_nat_numeral)
  have v: "refreshJwtService_verify env0 ''refresh.u3.'' 5"
    by (simp add: env0_def)
  have uv: "unique_violation (refresh_data (Some ''refresh.u3.iiiii'') (Some 604800005))
              [alice, bob] = []"
    by (simp add: unique_violation_def refresh_data_def no_data_def alice_fields bob_fields)
  have u: "user_update ''u3'' (refresh_data (Some ''refresh.u3.iiiii'') (Some 604800005)) 5 db0 =
             Inr (carol\<lparr>refreshToken := Some ''refresh.u3.iiiii'',
                        refreshTokenExpires := Some 604800005, updatedAt := 5\<rparr>,
                  db0\<lparr>users := [alice, bob,
                     carol\<lparr>refreshToken := Some ''refresh.u3.iiiii'',
                           refreshTokenExpires := Some 604800005, updatedAt := 5\<rparr>]\<rparr>)"
    by (simp add: user_update_def sample_fields write_refresh_data uv)
  show ?thesis
    by (simp add: refreshToken_op_def refreshToken_rotate_def Let_def f s u v carol_fields)
qed

text \<open>
  C1, as amended. Consuming a token is a lookup by the token (with its expiry check)
  followed by a separate update of the row with the id read, not one conditional update.
  Where the token columns are unique and two requests present the same token one after
  the other, the second fails as if the token had never existed once the first has
  succeeded (for a refresh token, when the rotation issued a different token). Where the
  lookups of both requests read the store before either update, both an activation and
  a password update succeed twice.
\<close>

theorem single_use_tokens:
  "(unique_column activationToken d \<and> activateUser now d token = (Inr r, d') \<longrightarrow>
      activateUser now' d' token =
        (Inl (UnauthorizedException ''Invalid activation token.''), d')) \<and>
   (unique_column resetToken d \<and> updatePassword env now d token newPassword = (Inr r, d') \<longrightarrow>
      updatePassword env' now' d' token newPassword' =
        (Inl (NotFoundException ''Invalid reset token.''), d')) \<and>
   (unique_column refreshToken d \<and> refreshToken_op env now d token = (Inr tokens, d') \<and>
    refresh_token tokens \<noteq> token \<longrightarrow>
      refreshToken_op env' now' d' token =
        (Inl (UnauthorizedException ''Invalid or expired refresh token''), d')) \<and>
   (activateUser_find a d token = Inr user \<and> activateUser_find b d token = Inr user \<longrightarrow>
      (\<exists>rA rB d2. activateUser_interleaved a b d token = ((Inr rA, Inr rB), d2))) \<and>
   (findByResetToken a d token = Inr obj \<and> findByResetToken b d token = Inr obj \<longrightarrow>
      (\<exists>rA rB d2. updatePassword_interleaved env a b d token passwordA passwordB =
         ((Inr rA, Inr rB), d2)))"
  using activateUser_twice [of d now token r d' now']
        updatePassword_twice [of d env now token newPassword r d' env' now' newPassword']
        refreshToken_twice [of d env now token tokens d' env' now']
        activateUser_both_succeed [of a d token user b]
        updatePassword_both_succeed [of a d token obj b env passwordA passwordB]
  by blast

theorem single_use_tokens_witness:
  "activateUser 60 (snd (activateUser 50 db0 ''cd34'')) ''cd34'' =
     (Inl (UnauthorizedException ''Invalid activation token.''), snd (activateUser 50 db0 ''cd34'')) \<and>
   updatePassword env0 60 (snd (updatePassword env0 50 db0 ''ab12'' ''newpw'')) ''ab12'' ''other'' =
     (Inl (NotFoundException ''Invalid reset token.''), snd (updatePassword env0 50 db0 ''ab12'' ''newpw'')) \<and>
   refreshToken_op env0 60 (snd (refreshToken_op env0 5 db0 ''refresh.u3.'')) ''refresh.u3.'' =
     (Inl (UnauthorizedException ''Invalid or expired refresh token''),
      snd (refreshToken_op env0 5 db0 ''refresh.u3.'')) \<and>
   (\<exists>rA rB d2. activateUser_interleaved 50 60 db0 ''cd34'' = ((Inr rA, Inr rB), d2)) \<and>
   (\<exists>rA rB d2. updatePassword_interleaved env0 50 60 db0 ''ab12'' ''newpw'' ''other'' =
      ((Inr rA, Inr rB), d2))"
proof -
  obtain r1 d1 where s1: "activateUser 50 db0 ''cd34'' = (Inr r1, d1)"
    by (simp add: activateUser_def activateUser_find_bob activateUser_update_def
          user_update_bob_50 bob_fields)
  obtain r2 d2 where s2: "updatePassword env0 50 db0 ''ab12'' ''newpw'' = (Inr r2, d2)"
    using updatePassword_update_member [of alice db0 env0 50 "''newpw''"]
    by (auto simp add: updatePassword_def findByResetToken_alice db0_users)
  note s3 = refreshToken_carol
  have "activateUser 60 d1 ''cd34'' =
          (Inl (UnauthorizedException ''Invalid activation token.''), d1)"
    using single_use_tokens [where d = db0 and now = 50 and token = "''cd34''" and r = r1
            and d' = d1 and now' = 60] db0_unique(1) s1
    by blast
  moreover have "updatePassword env0 60 d2 ''ab12'' ''other'' =
          (Inl (NotFoundException ''Invalid reset token.''), d2)"
    using single_use_tokens [where d = db0 and now = 50 and token = "''ab12''" and r = r2
            and d' = d2 and now' = 60 and env = env0 and env' = env0
            and newPassword = "''newpw''" and newPassword' = "''other''"] db0_unique(2) s2
    by blast
  moreover have "refreshToken_op env0 60 (snd (refreshToken_op env0 5 db0 ''refresh.u3.'')) ''refresh.u3.'' =
     (Inl (UnauthorizedException ''Invalid or expired refresh token''),
      snd (refreshToken_op env0 5 db0 ''refresh.u3.''))"
    using single_use_tokens [where d = db0 and now = 5 and token = "''refresh.u3.''"
            and tokens = "\<lparr>access_token = ''access.u3.iiiii'', refresh_token = ''refresh.u3.iiiii''\<rparr>"
            and d' = "snd (refreshToken_op env0 5 db0 ''refresh.u3.'')"
            and now' = 60 and env = env0 and env' = env0] db0_unique(3) s3
    by simp
  moreover have "\<exists>rA rB d2. activateUser_interleaved 50 60 db0 ''cd34'' = ((Inr rA, Inr rB), d2)"
    using single_use_tokens [where d = db0 and token = "''cd34''" and a = 50 and b = 60
            and user = bob] activateUser_find_bob
    by blast
  moreover have "\<exists>rA rB d2. updatePassword_interleaved env0 50 60 db0 ''ab12'' ''newpw'' ''other'' =
      ((Inr rA, Inr rB), d2)"
    using single_use_tokens [where d = db0 and token = "''ab12''" and a = 50 and b = 60
            and obj = "omit ''password'' (user_obj alice)" and env = env0
            and passwordA = "''newpw''" and passwordB = "''other''"] findByResetToken_alice
    by blast
  ultimately show ?thesis
    using s1 s2 by simp
qed

text \<open>
  The claim as stated lets at most one of two concurrent requests with the same token
  succeed. At the sample store, two activations with the token of \<open>bob\<close>, scheduled with
  both lookups before either update, both return the activated account.
\<close>

theorem activation_race_counterexample:
  "activateUser_interleaved 50 60 db0 ''cd34'' =
     ((Inr (omit ''password'' (user_obj
              (bob\<lparr>isActive := True, activationToken := None, activationTokenExpires := None,
                    updatedAt := 50\<rparr>))),
       Inr (omit ''password'' (user_obj
              (bob\<lparr>isActive := True, activationToken := None, activationTokenExpires := None,
                    updatedAt := 60\<rparr>)))),
      db0\<lparr>users := [alice, bob\<lparr>isActive := True, activationToken := None,
                               activationTokenExpires := None, updatedAt := 60\<rparr>, carol]\<rparr>)"
  by (simp add: activateUser_interleaved_def interleaved_def activateUser_find_bob
        activateUser_update_def user_update_bob_50 user_update_bob_60 bob_fields)

end
